theory Spec2Isabelle
  imports Main "HOL-Library.Word"
begin

unbundle bit_operations_syntax

section \<open>Abstract states of the Attributor (llvm/Transforms/IPO/Attributor.h)\<close>

subsection \<open>ChangeStatus\<close>

datatype ChangeStatus = CHANGED | UNCHANGED

subsection \<open>IntegerState\<close>

text \<open>
  \<^verbatim>\<open>using base_t = uint32_t;\<close>  The two private members \<^verbatim>\<open>Known\<close> and
  \<^verbatim>\<open>Assumed\<close> are the fields of the record; \<^verbatim>\<open>std::min\<close> and \<^verbatim>\<open>std::max\<close> on
  \<^verbatim>\<open>uint32_t\<close> are \<open>min\<close> and \<open>max\<close> on \<open>32 word\<close> (the unsigned order).
\<close>

type_synonym base_t = "32 word"

record IntegerState =
  Known :: base_t
  Assumed :: base_t

text \<open>\<^verbatim>\<open>static constexpr base_t getWorstState() { return 0; }\<close>\<close>

definition getWorstState :: base_t where
  "getWorstState = 0"

text \<open>
  \<^verbatim>\<open>IntegerState(base_t BestState = ~0) : Assumed(BestState) {}\<close> with the member
  initialiser \<^verbatim>\<open>base_t Known = getWorstState();\<close>.
\<close>

definition mkIntegerState :: "base_t \<Rightarrow> IntegerState" where
  "mkIntegerState BestState = \<lparr>Known = getWorstState, Assumed = BestState\<rparr>"

text \<open>The constructor called with its default argument \<^verbatim>\<open>~0\<close>.\<close>

definition defaultIntegerState :: IntegerState where
  "defaultIntegerState = mkIntegerState (NOT 0)"

text \<open>\<^verbatim>\<open>BooleanState() : IntegerState(1){}\<close>\<close>

definition BooleanState :: IntegerState where
  "BooleanState = mkIntegerState 1"

text \<open>\<^verbatim>\<open>bool isValidState() const override { return Assumed != getWorstState(); }\<close>\<close>

definition isValidState :: "IntegerState \<Rightarrow> bool" where
  "isValidState s = (Assumed s \<noteq> getWorstState)"

text \<open>\<^verbatim>\<open>bool isAtFixpoint() const override { return Assumed == Known; }\<close>\<close>

definition isAtFixpoint :: "IntegerState \<Rightarrow> bool" where
  "isAtFixpoint s = (Assumed s = Known s)"

text \<open>\<^verbatim>\<open>Known = Assumed; return ChangeStatus::UNCHANGED;\<close>\<close>

definition indicateOptimisticFixpoint :: "IntegerState \<Rightarrow> ChangeStatus \<times> IntegerState" where
  "indicateOptimisticFixpoint s = (UNCHANGED, s\<lparr>Known := Assumed s\<rparr>)"

text \<open>\<^verbatim>\<open>Assumed = Known; return ChangeStatus::CHANGED;\<close>\<close>

definition indicatePessimisticFixpoint :: "IntegerState \<Rightarrow> ChangeStatus \<times> IntegerState" where
  "indicatePessimisticFixpoint s = (CHANGED, s\<lparr>Assumed := Known s\<rparr>)"

definition getKnown :: "IntegerState \<Rightarrow> base_t" where
  "getKnown s = Known s"

definition getAssumed :: "IntegerState \<Rightarrow> base_t" where
  "getAssumed s = Assumed s"

text \<open>\<^verbatim>\<open>return (Known & BitsEncoding) == BitsEncoding;\<close>\<close>

definition isKnown :: "IntegerState \<Rightarrow> base_t \<Rightarrow> bool" where
  "isKnown s BitsEncoding = (Known s AND BitsEncoding = BitsEncoding)"

text \<open>\<^verbatim>\<open>return (Assumed & BitsEncoding) == BitsEncoding;\<close>\<close>

definition isAssumed :: "IntegerState \<Rightarrow> base_t \<Rightarrow> bool" where
  "isAssumed s BitsEncoding = (Assumed s AND BitsEncoding = BitsEncoding)"

text \<open>\<^verbatim>\<open>Assumed |= Bits; Known |= Bits; return *this;\<close>\<close>

definition addKnownBits :: "base_t \<Rightarrow> IntegerState \<Rightarrow> IntegerState" where
  "addKnownBits Bits s = \<lparr>Known = Known s OR Bits, Assumed = Assumed s OR Bits\<rparr>"

text \<open>\<^verbatim>\<open>Assumed = (Assumed & ~BitsEncoding) | Known; return *this;\<close>\<close>

definition removeAssumedBits :: "base_t \<Rightarrow> IntegerState \<Rightarrow> IntegerState" where
  "removeAssumedBits BitsEncoding s =
     s\<lparr>Assumed := (Assumed s AND NOT BitsEncoding) OR Known s\<rparr>"

text \<open>\<^verbatim>\<open>Assumed = (Assumed & BitsEncoding) | Known; return *this;\<close>\<close>

definition intersectAssumedBits :: "base_t \<Rightarrow> IntegerState \<Rightarrow> IntegerState" where
  "intersectAssumedBits BitsEncoding s =
     s\<lparr>Assumed := (Assumed s AND BitsEncoding) OR Known s\<rparr>"

text \<open>\<^verbatim>\<open>Assumed = std::max(std::min(Assumed, Value), Known); return *this;\<close>\<close>

definition takeAssumedMinimum :: "base_t \<Rightarrow> IntegerState \<Rightarrow> IntegerState" where
  "takeAssumedMinimum Value s = s\<lparr>Assumed := max (min (Assumed s) Value) (Known s)\<rparr>"

text \<open>
  \<^verbatim>\<open>Assumed = std::max(Value, Assumed); Known = std::max(Value, Known); return *this;\<close>
\<close>

definition takeKnownMaximum :: "base_t \<Rightarrow> IntegerState \<Rightarrow> IntegerState" where
  "takeKnownMaximum Value s =
     \<lparr>Known = max Value (Known s), Assumed = max Value (Assumed s)\<rparr>"

subsection \<open>The properties of a state that the claims speak about\<close>

text \<open>
  Inclusion of bitsets, written as the source writes its tests
  (\<^verbatim>\<open>(X & Y) == X\<close>): every bit set in \<open>x\<close> is set in \<open>y\<close>.
\<close>

definition bitsSubset :: "base_t \<Rightarrow> base_t \<Rightarrow> bool" where
  "bitsSubset x y = (x AND y = x)"

text \<open>The invariant \<open>Known \<subseteq> Assumed\<close>, as bitsets.\<close>

definition knownSubsetAssumed :: "IntegerState \<Rightarrow> bool" where
  "knownSubsetAssumed s = bitsSubset (Known s) (Assumed s)"

text \<open>The order of the two fields as unsigned numbers.\<close>

definition knownLeAssumed :: "IntegerState \<Rightarrow> bool" where
  "knownLeAssumed s = (Known s \<le> Assumed s)"

subsection \<open>Sequences of calls on one state\<close>

text \<open>
  A call of one of the seven mutating member functions, with its argument, so that
  "every sequence of calls" is a list.
\<close>

datatype Call =
    AddKnownBits base_t
  | RemoveAssumedBits base_t
  | IntersectAssumedBits base_t
  | TakeAssumedMinimum base_t
  | TakeKnownMaximum base_t
  | IndicateOptimisticFixpoint
  | IndicatePessimisticFixpoint

fun perform :: "Call \<Rightarrow> IntegerState \<Rightarrow> IntegerState" where
  "perform (AddKnownBits b) s = addKnownBits b s"
| "perform (RemoveAssumedBits b) s = removeAssumedBits b s"
| "perform (IntersectAssumedBits b) s = intersectAssumedBits b s"
| "perform (TakeAssumedMinimum v) s = takeAssumedMinimum v s"
| "perform (TakeKnownMaximum v) s = takeKnownMaximum v s"
| "perform IndicateOptimisticFixpoint s = snd (indicateOptimisticFixpoint s)"
| "perform IndicatePessimisticFixpoint s = snd (indicatePessimisticFixpoint s)"

text \<open>The state after each call of the sequence, in order.\<close>

fun statesAfter :: "Call list \<Rightarrow> IntegerState \<Rightarrow> IntegerState list" where
  "statesAfter [] s = []"
| "statesAfter (c # cs) s = perform c s # statesAfter cs (perform c s)"

text \<open>The calls that work on the fields as bitsets, and the two fixpoint indications.\<close>

fun isBitCall :: "Call \<Rightarrow> bool" where
  "isBitCall (TakeAssumedMinimum v) = False"
| "isBitCall (TakeKnownMaximum v) = False"
| "isBitCall c = True"

text \<open>The calls that compare the fields as numbers, and the two fixpoint indications.\<close>

fun isValueCall :: "Call \<Rightarrow> bool" where
  "isValueCall (TakeAssumedMinimum v) = True"
| "isValueCall (TakeKnownMaximum v) = True"
| "isValueCall IndicateOptimisticFixpoint = True"
| "isValueCall IndicatePessimisticFixpoint = True"
| "isValueCall c = False"

section \<open>Positions in the IR\<close>

subsection \<open>The values a position is anchored at\<close>

text \<open>
  The IR classes (\<^verbatim>\<open>Value\<close>, \<^verbatim>\<open>Function\<close>, \<^verbatim>\<open>Argument\<close>, \<^verbatim>\<open>CallBase\<close>,
  \<^verbatim>\<open>Instruction\<close>) are declared outside Attributor.h. A value carries what the header
  asks of it: its class (\<^verbatim>\<open>isa\<close>, \<^verbatim>\<open>dyn_cast\<close>), an argument's parent and number, an
  instruction's function, and a call's called function (none when the callee is not
  known) and argument operands. A number stands for the identity of the object.
  \<^verbatim>\<open>Argument::getArgNo()\<close> returns an \<^verbatim>\<open>unsigned\<close>, a word of 32 bits.
\<close>

datatype Function = Fn nat

datatype Argument = Arg (getParent: Function) (getArgNo: "32 word")

datatype Value =
    FunctionV Function
  | ArgumentV Argument
  | CallBaseV CallBase
  | InstructionV nat Function
  | OtherV nat
and CallBase =
    CB (cbId: nat) (cbFunction: Function) (getCalledFunction: "Function option")
       (argOperands: "Value list")

datatype error = AssertionFailure | NullPointer

fun isa_Argument :: "Value \<Rightarrow> bool" where
  "isa_Argument (ArgumentV a) = True"
| "isa_Argument v = False"

fun isa_CallBase :: "Value \<Rightarrow> bool" where
  "isa_CallBase (CallBaseV cb) = True"
| "isa_CallBase v = False"

text \<open>\<^verbatim>\<open>getArgOperand(i)\<close> asserts that the operand exists.\<close>

definition getArgOperand :: "CallBase \<Rightarrow> nat \<Rightarrow> error + Value" where
  "getArgOperand cb i =
     (if i < length (argOperands cb) then Inr (argOperands cb ! i) else Inl AssertionFailure)"

subsection \<open>IRPosition\<close>

text \<open>\<^verbatim>\<open>enum Kind : int\<close>, with the values the header gives.\<close>

definition IRP_INVALID :: int where "IRP_INVALID = -6"
definition IRP_FLOAT :: int where "IRP_FLOAT = -5"
definition IRP_RETURNED :: int where "IRP_RETURNED = -4"
definition IRP_CALL_SITE_RETURNED :: int where "IRP_CALL_SITE_RETURNED = -3"
definition IRP_FUNCTION :: int where "IRP_FUNCTION = -2"
definition IRP_CALL_SITE :: int where "IRP_CALL_SITE = -1"
definition IRP_ARGUMENT :: int where "IRP_ARGUMENT = 0"
definition IRP_CALL_SITE_ARGUMENT :: int where "IRP_CALL_SITE_ARGUMENT = 1"

text \<open>
  \<^verbatim>\<open>Value *AnchorVal; int KindOrArgNo;\<close>  A null anchor is \<open>None\<close>. Two positions are
  equal when both members are (\<^verbatim>\<open>operator==\<close>), which is the equality of the record.
\<close>

record IRPosition =
  AnchorVal :: "Value option"
  KindOrArgNo :: int

text \<open>\<^verbatim>\<open>IRPosition() : AnchorVal(nullptr), KindOrArgNo(IRP_INVALID)\<close>\<close>

definition IRPosition_default :: IRPosition where
  "IRPosition_default = \<lparr>AnchorVal = None, KindOrArgNo = IRP_INVALID\<rparr>"

text \<open>
  \<^verbatim>\<open>explicit IRPosition(Value &AnchorVal, Kind PK)\<close>; the body of \<^verbatim>\<open>verify()\<close> is not
  in the header and is left out.
\<close>

definition IRPosition_anchored :: "Value \<Rightarrow> int \<Rightarrow> IRPosition" where
  "IRPosition_anchored V PK = \<lparr>AnchorVal = Some V, KindOrArgNo = PK\<rparr>"

definition IRPosition_function :: "Function \<Rightarrow> IRPosition" where
  "IRPosition_function F = IRPosition_anchored (FunctionV F) IRP_FUNCTION"

definition IRPosition_returned :: "Function \<Rightarrow> IRPosition" where
  "IRPosition_returned F = IRPosition_anchored (FunctionV F) IRP_RETURNED"

text \<open>
  \<^verbatim>\<open>Kind(Arg.getArgNo())\<close> and \<^verbatim>\<open>Kind(ArgNo)\<close> convert an \<^verbatim>\<open>unsigned\<close> to the
  \<^verbatim>\<open>int\<close> under the enum: the 32 bits read in two's complement (\<open>sint\<close>), so a number
  from \<open>2^31\<close> on becomes negative. Every \<open>KindOrArgNo\<close> the constructors store is
  therefore in the range of a 32-bit \<^verbatim>\<open>int\<close>.
\<close>

definition IRPosition_argument :: "Argument \<Rightarrow> IRPosition" where
  "IRPosition_argument a = IRPosition_anchored (ArgumentV a) (sint (getArgNo a))"

definition IRPosition_callsite_function :: "CallBase \<Rightarrow> IRPosition" where
  "IRPosition_callsite_function cb = IRPosition_anchored (CallBaseV cb) IRP_CALL_SITE"

definition IRPosition_callsite_returned :: "CallBase \<Rightarrow> IRPosition" where
  "IRPosition_callsite_returned cb =
     IRPosition_anchored (CallBaseV cb) IRP_CALL_SITE_RETURNED"

definition IRPosition_callsite_argument :: "CallBase \<Rightarrow> 32 word \<Rightarrow> IRPosition" where
  "IRPosition_callsite_argument cb ArgNo = IRPosition_anchored (CallBaseV cb) (sint ArgNo)"

text \<open>\<^verbatim>\<open>static const IRPosition value(const Value &V)\<close>\<close>

fun IRPosition_value :: "Value \<Rightarrow> IRPosition" where
  "IRPosition_value (ArgumentV a) = IRPosition_argument a"
| "IRPosition_value (CallBaseV cb) = IRPosition_callsite_returned cb"
| "IRPosition_value V = IRPosition_anchored V IRP_FLOAT"

definition getArgNo_pos :: "IRPosition \<Rightarrow> int" where
  "getArgNo_pos P = KindOrArgNo P"

text \<open>
  \<^verbatim>\<open>getAnchorValue()\<close>: the assertion that the position is not invalid, then
  \<^verbatim>\<open>*AnchorVal\<close>.
\<close>

definition getAnchorValue :: "IRPosition \<Rightarrow> error + Value" where
  "getAnchorValue P =
     (if KindOrArgNo P = IRP_INVALID then Inl AssertionFailure
      else case AnchorVal P of None \<Rightarrow> Inl NullPointer | Some V \<Rightarrow> Inr V)"

text \<open>\<^verbatim>\<open>getAssociatedValue()\<close>\<close>

definition getAssociatedValue :: "IRPosition \<Rightarrow> error + Value" where
  "getAssociatedValue P =
     (if KindOrArgNo P = IRP_INVALID then Inl AssertionFailure
      else case AnchorVal P of
        None \<Rightarrow> Inl NullPointer
      | Some V \<Rightarrow>
          if getArgNo_pos P < 0 \<or> isa_Argument V then Inr V
          else (case V of
                  CallBaseV cb \<Rightarrow> getArgOperand cb (nat (getArgNo_pos P))
                | _ \<Rightarrow> Inl AssertionFailure))"

text \<open>
  \<^verbatim>\<open>getPositionKind()\<close>, with its three assertions. The assertions call
  \<^verbatim>\<open>getAnchorValue()\<close> and \<^verbatim>\<open>getAssociatedValue()\<close>, whose own failures are failures
  here.
\<close>

definition getPositionKind :: "IRPosition \<Rightarrow> error + int" where
  "getPositionKind P =
     (case getAnchorValue P of
        Inl e \<Rightarrow> Inl e
      | Inr V \<Rightarrow>
          if getArgNo_pos P \<ge> 0 then
            (if isa_CallBase V then Inr IRP_CALL_SITE_ARGUMENT
             else if isa_Argument V then
               (case getAssociatedValue P of
                  Inl e \<Rightarrow> Inl e
                | Inr W \<Rightarrow> if isa_Argument W then Inr IRP_ARGUMENT else Inl AssertionFailure)
             else Inl AssertionFailure)
          else if isa_Argument V then Inl AssertionFailure
          else Inr (KindOrArgNo P))"

text \<open>
  Modelled from the spec: the constructor
  \<^verbatim>\<open>SubsumingPositionIterator::SubsumingPositionIterator(const IRPosition &IRP)\<close>, which
  the header only declares. The positions follow section 4.1 of the specification and the
  comment of the class in the header: the position itself first; for a returned value and
  for an argument, the function; for a call site, the function position of the callee if
  known; for a call-site return value, the callee's returned position if known, then the
  call-site position, then the callee's function position if known; for a call-site
  argument, the callee's matching argument and function positions if known, then the
  position of the operand itself.
\<close>

definition SubsumingPositionIterator :: "IRPosition \<Rightarrow> error + IRPosition list" where
  "SubsumingPositionIterator IRP =
     (case getPositionKind IRP of
        Inl e \<Rightarrow> Inl e
      | Inr K \<Rightarrow>
          (case AnchorVal IRP of
             Some (FunctionV F) \<Rightarrow>
               Inr (IRP # (if K = IRP_RETURNED then [IRPosition_function F] else []))
           | Some (ArgumentV a) \<Rightarrow>
               Inr (IRP # (if K = IRP_ARGUMENT then [IRPosition_function (getParent a)]
                           else []))
           | Some (CallBaseV cb) \<Rightarrow>
               if K = IRP_CALL_SITE then
                 Inr (IRP #
                   (case getCalledFunction cb of
                      Some Callee \<Rightarrow> [IRPosition_function Callee]
                    | None \<Rightarrow> []))
               else if K = IRP_CALL_SITE_RETURNED then
                 Inr (IRP #
                   (case getCalledFunction cb of
                      Some Callee \<Rightarrow> [IRPosition_returned Callee]
                    | None \<Rightarrow> []) @
                   [IRPosition_callsite_function cb] @
                   (case getCalledFunction cb of
                      Some Callee \<Rightarrow> [IRPosition_function Callee]
                    | None \<Rightarrow> []))
               else if K = IRP_CALL_SITE_ARGUMENT then
                 (case getAssociatedValue IRP of
                    Inl e \<Rightarrow> Inl e
                  | Inr V \<Rightarrow>
                      Inr (IRP #
                        (case getCalledFunction cb of
                           Some Callee \<Rightarrow>
                             [IRPosition_argument (Arg Callee (word_of_int (getArgNo_pos IRP))),
                              IRPosition_function Callee]
                         | None \<Rightarrow> []) @
                        [IRPosition_value V]))
               else Inr [IRP]
           | _ \<Rightarrow> Inr [IRP]))"

section \<open>The Attributor\<close>

text \<open>
  An abstract attribute object, as far as \<^verbatim>\<open>getAAFor\<close> and \<^verbatim>\<open>registerAA\<close> look at it:
  its position (\<^verbatim>\<open>getIRPosition()\<close>) and its state (\<^verbatim>\<open>getState()\<close>). The state is
  an \<^verbatim>\<open>AbstractState\<close>, whose class is up to the attribute: \<open>'s\<close> is the type of the
  states, and the virtual \<^verbatim>\<open>AbstractState::isValidState()\<close> is a function on \<open>'s\<close>,
  a parameter of \<open>getAAFor\<close> below. For the classes built with
  \<^verbatim>\<open>StateWrapper<BooleanState, ...>\<close> and \<^verbatim>\<open>StateWrapper<IntegerState, ...>\<close> the
  state is an IntegerState and the function is \<open>isValidState\<close> above.
\<close>

record 's AbstractAttribute =
  getIRPosition :: IRPosition
  getState :: 's

text \<open>
  The members of \<^verbatim>\<open>struct Attributor\<close>. Pointers to attribute objects are addresses
  (\<open>nat\<close>) into \<open>Objects\<close>, the store of the attribute objects; \<open>NextObject\<close> is the address
  the next \<^verbatim>\<open>new\<close> returns. The address of a static member \<^verbatim>\<open>AAType::ID\<close> is a
  \<open>nat\<close> as well. A \<^verbatim>\<open>DenseMap\<close> is a partial map, and a \<^verbatim>\<open>SetVector\<close> a list without
  repetitions in insertion order.
\<close>

record 's Attributor =
  AllAbstractAttributes :: "nat list"
  AAMap :: "IRPosition \<rightharpoonup> (nat \<rightharpoonup> nat)"
  QueryMap :: "nat \<rightharpoonup> nat list"
  Objects :: "nat \<Rightarrow> 's AbstractAttribute"
  NextObject :: nat

text \<open>\<^verbatim>\<open>SetVector::insert\<close>: appended unless already a member.\<close>

definition SetVector_insert :: "nat \<Rightarrow> nat list \<Rightarrow> nat list" where
  "SetVector_insert X V = (if X \<in> set V then V else V @ [X])"

text \<open>
  \<^verbatim>\<open>DenseMapInfo<IRPosition>::getHashValue(IRP)\<close> computes the hash from
  \<^verbatim>\<open>&IRP.getAnchorValue()\<close> and \<^verbatim>\<open>IRP.getArgNo()\<close>, so it fails where
  \<^verbatim>\<open>getAnchorValue()\<close> fails: on the assertion for an invalid position, and on a null
  anchor. The number only places the key in the table; the anchor and the argument
  number it is computed from stand for it.
\<close>

definition getHashValue :: "IRPosition \<Rightarrow> error + Value \<times> int" where
  "getHashValue IRP =
     (case getAnchorValue IRP of Inl e \<Rightarrow> Inl e | Inr V \<Rightarrow> Inr (V, getArgNo_pos IRP))"

text \<open>
  What the lookup map holds for a position: the inner map, or an empty one when the key
  is absent.
\<close>

definition AAMap_at :: "'s Attributor \<Rightarrow> IRPosition \<Rightarrow> (nat \<rightharpoonup> nat)" where
  "AAMap_at A IRP = (case AAMap A IRP of None \<Rightarrow> Map.empty | Some M \<Rightarrow> M)"

text \<open>
  \<^verbatim>\<open>AAMap.lookup(IRP)\<close>. A \<^verbatim>\<open>DenseMap\<close> that has no buckets, which is one that nothing
  was inserted into, answers with the default value without hashing the key; any other
  hashes the key first.
\<close>

definition AAMap_lookup :: "'s Attributor \<Rightarrow> IRPosition \<Rightarrow> error + (nat \<rightharpoonup> nat)" where
  "AAMap_lookup A IRP =
     (if AAMap A = Map.empty then Inr Map.empty
      else case getHashValue IRP of Inl e \<Rightarrow> Inl e | Inr h \<Rightarrow> Inr (AAMap_at A IRP))"

text \<open>The dependents recorded for an attribute; none when the key is absent.\<close>

definition QueryMap_lookup :: "'s Attributor \<Rightarrow> nat \<Rightarrow> nat list" where
  "QueryMap_lookup A AA = (case QueryMap A AA of None \<Rightarrow> [] | Some V \<Rightarrow> V)"

text \<open>\<^verbatim>\<open>QueryMap[AA].insert(const_cast<AbstractAttribute *>(&QueryingAA));\<close>\<close>

definition QueryMap_insert :: "nat \<Rightarrow> nat \<Rightarrow> 's Attributor \<Rightarrow> 's Attributor" where
  "QueryMap_insert AA QueryingAA A =
     A\<lparr>QueryMap := (QueryMap A)(AA \<mapsto> SetVector_insert QueryingAA (QueryMap_lookup A AA))\<rparr>"

text \<open>
  \<^verbatim>\<open>registerAA\<close>: \<^verbatim>\<open>AAMap[IRP][&AAType::ID] = &AA;
  AllAbstractAttributes.push_back(&AA); return AA;\<close> with \<open>IRP\<close> the position of the
  attribute. \<^verbatim>\<open>AAMap[IRP]\<close> hashes the key in every case (a table without buckets is
  grown and then searched), so the call ends there when the position cannot be hashed.
  The body has no assertion of its own, and none about an entry that exists already.
\<close>

definition registerAA :: "nat \<Rightarrow> nat \<Rightarrow> 's Attributor \<Rightarrow> error + 's Attributor" where
  "registerAA ID AA A =
     (let IRP = getIRPosition (Objects A AA)
      in case getHashValue IRP of
           Inl e \<Rightarrow> Inl e
         | Inr h \<Rightarrow>
             Inr (A\<lparr>AAMap := (AAMap A)(IRP \<mapsto> (AAMap_at A IRP)(ID \<mapsto> AA)),
                      AllAbstractAttributes := AllAbstractAttributes A @ [AA]\<rparr>))"

text \<open>
  The object that \<^verbatim>\<open>AAType::createForPosition(IRP, *this)\<close> returns is placed at a new
  address.
\<close>

definition newObject ::
  "'s AbstractAttribute \<Rightarrow> 's Attributor \<Rightarrow> nat \<times> 's Attributor" where
  "newObject obj A =
     (NextObject A,
      A\<lparr>Objects := (Objects A)(NextObject A := obj), NextObject := Suc (NextObject A)\<rparr>)"

text \<open>
  \<^verbatim>\<open>getAAFor<AAType>(QueryingAA, IRP)\<close>. The class \<^verbatim>\<open>AAType\<close> enters through the
  address \<open>ID\<close> of its static member and through its factory \<open>createForPosition\<close>, which
  is defined outside the header and is a parameter here: it gives the new object for a
  position. \<open>isValid\<close> is the \<^verbatim>\<open>isValidState()\<close> of the states. The result is the
  address of the returned attribute and the Attributor after the call, or the failure of
  hashing a position in \<^verbatim>\<open>AAMap.lookup\<close> or in \<^verbatim>\<open>registerAA\<close>.
\<close>

definition getAAFor ::
  "('s \<Rightarrow> bool) \<Rightarrow> nat \<Rightarrow> (IRPosition \<Rightarrow> 's Attributor \<Rightarrow> 's AbstractAttribute) \<Rightarrow> nat \<Rightarrow>
   IRPosition \<Rightarrow> 's Attributor \<Rightarrow> error + (nat \<times> 's Attributor)" where
  "getAAFor isValid ID createForPosition QueryingAA IRP A =
     (case AAMap_lookup A IRP of
        Inl e \<Rightarrow> Inl e
      | Inr KindToAbstractAttributeMap \<Rightarrow>
          (case KindToAbstractAttributeMap ID of
             Some AA \<Rightarrow>
               Inr (AA,
                    if isValid (getState (Objects A AA))
                    then QueryMap_insert AA QueryingAA A
                    else A)
           | None \<Rightarrow>
               (case newObject (createForPosition IRP A) A of
                  (AA, A1) \<Rightarrow>
                    (case registerAA ID AA A1 of
                       Inl e \<Rightarrow> Inl e
                     | Inr A2 \<Rightarrow>
                         Inr (AA,
                              if isValid (getState (Objects A2 AA))
                              then QueryMap_insert AA QueryingAA A2
                              else A2)))))"

subsection \<open>Small Attributors for the examples\<close>

text \<open>The factory of a class whose state is a fresh BooleanState.\<close>

definition createBoolean ::
  "IRPosition \<Rightarrow> IntegerState Attributor \<Rightarrow> IntegerState AbstractAttribute" where
  "createBoolean IRP A = \<lparr>getIRPosition = IRP, getState = BooleanState\<rparr>"

text \<open>
  An Attributor right after its construction, with no attribute registered; the object
  at address 0 was made for the default, invalid position.
\<close>

definition freshAttributor :: "IntegerState Attributor" where
  "freshAttributor =
     \<lparr>AllAbstractAttributes = [], AAMap = Map.empty, QueryMap = Map.empty,
      Objects = (\<lambda>p. \<lparr>getIRPosition = IRPosition_default, getState = BooleanState\<rparr>),
      NextObject = 0\<rparr>"

text \<open>
  Two attribute objects of one class, at addresses 0 and 1, both for the function
  position of function 1; neither is registered yet.
\<close>

definition twoObjects :: "IntegerState Attributor" where
  "twoObjects =
     \<lparr>AllAbstractAttributes = [], AAMap = Map.empty, QueryMap = Map.empty,
      Objects = (\<lambda>p. \<lparr>getIRPosition = IRPosition_function (Fn 1), getState = BooleanState\<rparr>),
      NextObject = 2\<rparr>"

text \<open>
  Two registered attributes of the class with ID 7, in their fresh BooleanState: at
  address 0 for the function position of function 1, at address 1 for its returned
  position. Each has queried the other once.
\<close>

definition registeredAttributor :: "IntegerState Attributor" where
  "registeredAttributor =
     \<lparr>AllAbstractAttributes = [0, 1],
      AAMap = [IRPosition_function (Fn 1) \<mapsto> [7 \<mapsto> 0],
               IRPosition_returned (Fn 1) \<mapsto> [7 \<mapsto> 1]],
      QueryMap = [0 \<mapsto> [1], 1 \<mapsto> [0]],
      Objects = (\<lambda>p. \<lparr>getIRPosition = (if p = 0 then IRPosition_function (Fn 1)
                                          else IRPosition_returned (Fn 1)),
                        getState = BooleanState\<rparr>),
      NextObject = 2\<rparr>"

text \<open>
  One registered attribute at address 0, of the class with ID 7, at the function position
  of function 1, with its BooleanState forced to its pessimistic fixpoint.
\<close>

definition pessimisticAttributor :: "IntegerState Attributor" where
  "pessimisticAttributor =
     \<lparr>AllAbstractAttributes = [0],
      AAMap = [IRPosition_function (Fn 1) \<mapsto> [7 \<mapsto> 0]],
      QueryMap = Map.empty,
      Objects = (\<lambda>p. \<lparr>getIRPosition = IRPosition_function (Fn 1),
                        getState = snd (indicatePessimisticFixpoint BooleanState)\<rparr>),
      NextObject = 1\<rparr>"

section \<open>Facts about bitsets of 32 bits\<close>

lemmas Kind_defs =
  IRP_INVALID_def IRP_FLOAT_def IRP_RETURNED_def IRP_CALL_SITE_RETURNED_def
  IRP_FUNCTION_def IRP_CALL_SITE_def IRP_ARGUMENT_def IRP_CALL_SITE_ARGUMENT_def

lemma bitsSubset_refl: "bitsSubset x x"
  by (simp add: bitsSubset_def)

lemma bitsSubset_or_right: "bitsSubset k (a OR k)"
  by (simp add: bitsSubset_def bit_eq_iff bit_simps)

lemma bitsSubset_or_left: "bitsSubset k (k OR b)"
  by (simp add: bitsSubset_def bit_eq_iff bit_simps)

lemma bitsSubset_or_both: "bitsSubset k a \<Longrightarrow> bitsSubset (k OR b) (a OR b)"
  unfolding bitsSubset_def by (simp add: bit_eq_iff bit_simps) blast

lemma bitsSubset_and_or: "bitsSubset k a \<Longrightarrow> bitsSubset ((a AND b) OR k) a"
  unfolding bitsSubset_def by (simp add: bit_eq_iff bit_simps) blast

lemma bitsSubset_absorb: "bitsSubset b a \<Longrightarrow> a OR b = a"
  unfolding bitsSubset_def by (simp add: bit_eq_iff bit_simps) blast

lemma and_or_idem: "(((a AND b) OR k) AND b) OR k = (a AND b) OR (k :: base_t)"
  by (simp add: bit_eq_iff bit_simps) blast

section \<open>The invariant of IntegerState\<close>

text \<open>The invariant is the test \<^verbatim>\<open>isAssumed(Known)\<close> of the class.\<close>

lemma knownSubsetAssumed_isAssumed: "knownSubsetAssumed s = isAssumed s (Known s)"
  by (simp add: knownSubsetAssumed_def bitsSubset_def isAssumed_def and.commute)

lemma perform_bit_invariant:
  "knownSubsetAssumed s \<Longrightarrow> isBitCall c \<Longrightarrow> knownSubsetAssumed (perform c s)"
  by (cases c)
     (simp_all add: knownSubsetAssumed_def addKnownBits_def removeAssumedBits_def
        intersectAssumedBits_def indicateOptimisticFixpoint_def
        indicatePessimisticFixpoint_def bitsSubset_or_both bitsSubset_or_right
        bitsSubset_refl)

lemma perform_value_invariant:
  "knownLeAssumed s \<Longrightarrow> isValueCall c \<Longrightarrow> knownLeAssumed (perform c s)"
  by (cases c)
     (auto simp: knownLeAssumed_def takeAssumedMinimum_def takeKnownMaximum_def
        indicateOptimisticFixpoint_def indicatePessimisticFixpoint_def min_def max_def)

lemma statesAfter_bit_invariant:
  "knownSubsetAssumed s \<Longrightarrow> list_all isBitCall cs \<Longrightarrow>
   list_all knownSubsetAssumed (statesAfter cs s)"
  by (induction cs arbitrary: s) (simp_all add: perform_bit_invariant)

lemma statesAfter_value_invariant:
  "knownLeAssumed s \<Longrightarrow> list_all isValueCall cs \<Longrightarrow>
   list_all knownLeAssumed (statesAfter cs s)"
  by (induction cs arbitrary: s) (simp_all add: perform_value_invariant)

text \<open>
  C1 (as the claim states it, refuted): \<open>takeAssumedMinimum\<close> and
  \<open>takeKnownMaximum\<close> compare the fields as numbers and break the inclusion of bitsets.
  From a default-constructed state, \<open>addKnownBits(1)\<close> then \<open>takeAssumedMinimum(2)\<close>
  gives \<open>Known = 1\<close>, \<open>Assumed = 2\<close>; from \<open>IntegerState(5)\<close>, \<open>addKnownBits(1)\<close> then
  \<open>takeKnownMaximum(2)\<close> gives \<open>Known = 2\<close>, \<open>Assumed = 5\<close>.
\<close>

theorem C1_invariant_counterexample:
  "knownSubsetAssumed (addKnownBits 1 defaultIntegerState) \<and>
   \<not> knownSubsetAssumed (takeAssumedMinimum 2 (addKnownBits 1 defaultIntegerState)) \<and>
   knownSubsetAssumed (addKnownBits 1 (mkIntegerState 5)) \<and>
   \<not> knownSubsetAssumed (takeKnownMaximum 2 (addKnownBits 1 (mkIntegerState 5)))"
  by (simp add: knownSubsetAssumed_def bitsSubset_def takeAssumedMinimum_def
      takeKnownMaximum_def addKnownBits_def defaultIntegerState_def mkIntegerState_def
      getWorstState_def)

text \<open>
  C1 (amended): from any state with \<open>Known \<subseteq> Assumed\<close> as bitsets, after every call of
  every sequence of \<open>addKnownBits\<close>, \<open>removeAssumedBits\<close>, \<open>intersectAssumedBits\<close>,
  \<open>indicateOptimisticFixpoint\<close> and \<open>indicatePessimisticFixpoint\<close> the inclusion holds
  again. \<open>takeAssumedMinimum\<close> and \<open>takeKnownMaximum\<close> keep the order of numbers instead:
  from any state with \<open>Known \<le> Assumed\<close>, after every call of every sequence of these two
  and the two fixpoint indications, \<open>Known \<le> Assumed\<close> holds again.
\<close>

theorem C1_invariant_amended:
  "(knownSubsetAssumed s \<and> list_all isBitCall cs \<longrightarrow>
      list_all knownSubsetAssumed (statesAfter cs s)) \<and>
   (knownLeAssumed t \<and> list_all isValueCall ds \<longrightarrow>
      list_all knownLeAssumed (statesAfter ds t))"
  by (simp add: statesAfter_bit_invariant statesAfter_value_invariant)

theorem C1_invariant_amended_witness:
  "knownSubsetAssumed defaultIntegerState \<and>
   list_all isBitCall
     [AddKnownBits 1, RemoveAssumedBits 6, IntersectAssumedBits 9,
      IndicatePessimisticFixpoint] \<and>
   list_all knownSubsetAssumed
     (statesAfter
       [AddKnownBits 1, RemoveAssumedBits 6, IntersectAssumedBits 9,
        IndicatePessimisticFixpoint] defaultIntegerState) \<and>
   knownLeAssumed (mkIntegerState 100) \<and>
   list_all isValueCall
     [TakeKnownMaximum 4, TakeAssumedMinimum 16, IndicateOptimisticFixpoint] \<and>
   list_all knownLeAssumed
     (statesAfter [TakeKnownMaximum 4, TakeAssumedMinimum 16, IndicateOptimisticFixpoint]
       (mkIntegerState 100))"
proof -
  have b: "knownSubsetAssumed defaultIntegerState \<and>
      list_all isBitCall
        [AddKnownBits 1, RemoveAssumedBits 6, IntersectAssumedBits 9,
         IndicatePessimisticFixpoint]"
    by (simp add: knownSubsetAssumed_def bitsSubset_def defaultIntegerState_def
        mkIntegerState_def getWorstState_def)
  have v: "knownLeAssumed (mkIntegerState 100) \<and>
      list_all isValueCall
        [TakeKnownMaximum 4, TakeAssumedMinimum 16, IndicateOptimisticFixpoint]"
    by (simp add: knownLeAssumed_def mkIntegerState_def getWorstState_def)
  show ?thesis
    using b v
      C1_invariant_amended [of defaultIntegerState
        "[AddKnownBits 1, RemoveAssumedBits 6, IntersectAssumedBits 9,
          IndicatePessimisticFixpoint]"
        "mkIntegerState 100"
        "[TakeKnownMaximum 4, TakeAssumedMinimum 16, IndicateOptimisticFixpoint]"]
    by blast
qed

section \<open>Monotonicity of a single call\<close>

text \<open>
  C2 (as the claim states it, refuted): \<open>addKnownBits(2)\<close> on a fresh \<open>BooleanState\<close>
  turns \<open>Assumed\<close> from 1 into 3; \<open>takeKnownMaximum(2)\<close> on \<open>Known = 1\<close> gives
  \<open>Known = 2\<close>, which has lost bit 0; \<open>takeAssumedMinimum(3)\<close> on \<open>Assumed = 4\<close> gives
  \<open>Assumed = 3\<close>, which is no subset of 4; and in the state \<open>Known = 1\<close>, \<open>Assumed = 2\<close>
  that \<open>addKnownBits(1)\<close>, \<open>takeAssumedMinimum(2)\<close> leave, \<open>removeAssumedBits(0)\<close> turns
  \<open>Assumed\<close> into 3.
\<close>

theorem C2_monotone_counterexample:
  "\<not> bitsSubset (Assumed (addKnownBits 2 BooleanState)) (Assumed BooleanState) \<and>
   \<not> bitsSubset (Known (addKnownBits 1 defaultIntegerState))
       (Known (takeKnownMaximum 2 (addKnownBits 1 defaultIntegerState))) \<and>
   \<not> bitsSubset (Assumed (takeAssumedMinimum 3 (mkIntegerState 4)))
       (Assumed (mkIntegerState 4)) \<and>
   \<not> bitsSubset
       (Assumed (removeAssumedBits 0
          (takeAssumedMinimum 2 (addKnownBits 1 defaultIntegerState))))
       (Assumed (takeAssumedMinimum 2 (addKnownBits 1 defaultIntegerState)))"
  by (simp add: bitsSubset_def takeAssumedMinimum_def takeKnownMaximum_def
      addKnownBits_def removeAssumedBits_def defaultIntegerState_def BooleanState_def
      mkIntegerState_def getWorstState_def)

text \<open>
  C2 (amended): from a state with \<open>Known \<subseteq> Assumed\<close>, \<open>removeAssumedBits\<close> and
  \<open>intersectAssumedBits\<close> leave \<open>Known\<close> a superset of what it was and \<open>Assumed\<close> a subset
  of what it was. \<open>addKnownBits(Bits)\<close> leaves \<open>Known\<close> a superset of what it was and sets
  \<open>Assumed\<close> to \<open>Assumed | Bits\<close>, which is a subset of the old \<open>Assumed\<close> when \<open>Bits\<close>
  were assumed already. \<open>takeAssumedMinimum\<close> and \<open>takeKnownMaximum\<close> are monotone in the
  order of numbers: \<open>takeAssumedMinimum\<close> leaves \<open>Known\<close> as it is and, from a state with
  \<open>Known \<le> Assumed\<close>, does not raise \<open>Assumed\<close>; \<open>takeKnownMaximum(Value)\<close> does not
  lower \<open>Known\<close>, and leaves \<open>Assumed\<close> as it is when \<open>Value \<le> Assumed\<close>.
\<close>

theorem C2_monotone_amended:
  "(knownSubsetAssumed s \<longrightarrow>
      bitsSubset (Known s) (Known (removeAssumedBits B s)) \<and>
      bitsSubset (Assumed (removeAssumedBits B s)) (Assumed s) \<and>
      bitsSubset (Known s) (Known (intersectAssumedBits B s)) \<and>
      bitsSubset (Assumed (intersectAssumedBits B s)) (Assumed s)) \<and>
   bitsSubset (Known s) (Known (addKnownBits B s)) \<and>
   Assumed (addKnownBits B s) = Assumed s OR B \<and>
   (bitsSubset B (Assumed s) \<longrightarrow>
      bitsSubset (Assumed (addKnownBits B s)) (Assumed s)) \<and>
   Known (takeAssumedMinimum V s) = Known s \<and>
   (knownLeAssumed s \<longrightarrow> Assumed (takeAssumedMinimum V s) \<le> Assumed s) \<and>
   Known s \<le> Known (takeKnownMaximum V s) \<and>
   (V \<le> Assumed s \<longrightarrow> Assumed (takeKnownMaximum V s) = Assumed s)"
proof -
  have "knownSubsetAssumed s \<Longrightarrow> bitsSubset (Assumed (removeAssumedBits B s)) (Assumed s)"
    by (simp add: knownSubsetAssumed_def removeAssumedBits_def bitsSubset_and_or)
  moreover have
    "knownSubsetAssumed s \<Longrightarrow> bitsSubset (Assumed (intersectAssumedBits B s)) (Assumed s)"
    by (simp add: knownSubsetAssumed_def intersectAssumedBits_def bitsSubset_and_or)
  moreover have "bitsSubset (Known s) (Known (removeAssumedBits B s))"
    and "bitsSubset (Known s) (Known (intersectAssumedBits B s))"
    by (simp_all add: removeAssumedBits_def intersectAssumedBits_def bitsSubset_refl)
  moreover have "bitsSubset (Known s) (Known (addKnownBits B s))"
    by (simp add: addKnownBits_def bitsSubset_or_left)
  moreover have "Assumed (addKnownBits B s) = Assumed s OR B"
    by (simp add: addKnownBits_def)
  moreover have
    "bitsSubset B (Assumed s) \<Longrightarrow> bitsSubset (Assumed (addKnownBits B s)) (Assumed s)"
    by (simp add: addKnownBits_def bitsSubset_absorb bitsSubset_refl)
  moreover have "Known (takeAssumedMinimum V s) = Known s"
    by (simp add: takeAssumedMinimum_def)
  moreover have "knownLeAssumed s \<Longrightarrow> Assumed (takeAssumedMinimum V s) \<le> Assumed s"
    by (simp add: knownLeAssumed_def takeAssumedMinimum_def)
  moreover have "Known s \<le> Known (takeKnownMaximum V s)"
    by (simp add: takeKnownMaximum_def)
  moreover have "V \<le> Assumed s \<Longrightarrow> Assumed (takeKnownMaximum V s) = Assumed s"
    by (simp add: takeKnownMaximum_def max_def)
  ultimately show ?thesis by blast
qed

theorem C2_monotone_amended_witness:
  "knownSubsetAssumed (addKnownBits 1 defaultIntegerState) \<and>
   bitsSubset 1 (Assumed (addKnownBits 1 defaultIntegerState)) \<and>
   knownLeAssumed (addKnownBits 1 defaultIntegerState) \<and>
   (8 :: base_t) \<le> Assumed (addKnownBits 1 defaultIntegerState) \<and>
   bitsSubset (Assumed (removeAssumedBits 6 (addKnownBits 1 defaultIntegerState)))
     (Assumed (addKnownBits 1 defaultIntegerState)) \<and>
   bitsSubset (Assumed (intersectAssumedBits 6 (addKnownBits 1 defaultIntegerState)))
     (Assumed (addKnownBits 1 defaultIntegerState)) \<and>
   bitsSubset (Assumed (addKnownBits 1 (addKnownBits 1 defaultIntegerState)))
     (Assumed (addKnownBits 1 defaultIntegerState)) \<and>
   Assumed (takeAssumedMinimum 8 (addKnownBits 1 defaultIntegerState))
     \<le> Assumed (addKnownBits 1 defaultIntegerState) \<and>
   Assumed (takeKnownMaximum 8 (addKnownBits 1 defaultIntegerState))
     = Assumed (addKnownBits 1 defaultIntegerState)"
proof -
  have h: "knownSubsetAssumed (addKnownBits 1 defaultIntegerState) \<and>
      bitsSubset 1 (Assumed (addKnownBits 1 defaultIntegerState)) \<and>
      knownLeAssumed (addKnownBits 1 defaultIntegerState) \<and>
      (8 :: base_t) \<le> Assumed (addKnownBits 1 defaultIntegerState)"
    by (simp add: knownSubsetAssumed_def knownLeAssumed_def bitsSubset_def
        addKnownBits_def defaultIntegerState_def mkIntegerState_def getWorstState_def)
  show ?thesis
    using h
      C2_monotone_amended [of "addKnownBits 1 defaultIntegerState" 6 8]
      C2_monotone_amended [of "addKnownBits 1 defaultIntegerState" 1 8]
    by blast
qed

section \<open>Fixpoint test, validity and construction\<close>

text \<open>
  C3: \<open>isAtFixpoint\<close> returns true exactly when \<open>Assumed = Known\<close>, and
  \<open>isValidState\<close> returns true exactly when \<open>Assumed\<close> is not 0, the worst state.
\<close>

theorem C3_fixpoint_and_validity:
  "isAtFixpoint s = (Assumed s = Known s) \<and> isValidState s = (Assumed s \<noteq> 0)"
  by (simp add: isAtFixpoint_def isValidState_def getWorstState_def)

section \<open>Indicating a fixpoint\<close>

text \<open>
  C4 (as the claim states it, refuted): on a default-constructed state
  (\<open>Known = 0\<close>, \<open>Assumed = 0xFFFFFFFF\<close>), after \<open>indicateOptimisticFixpoint\<close> the field
  \<open>Assumed\<close> is not the prior \<open>Known\<close>, and after \<open>indicatePessimisticFixpoint\<close> the field
  \<open>Known\<close> is not the prior \<open>Assumed\<close>.
\<close>

theorem C4_fixpoint_direction_counterexample:
  "Assumed (snd (indicateOptimisticFixpoint defaultIntegerState))
     \<noteq> Known defaultIntegerState \<and>
   Known (snd (indicatePessimisticFixpoint defaultIntegerState))
     \<noteq> Assumed defaultIntegerState"
  by (simp add: indicateOptimisticFixpoint_def indicatePessimisticFixpoint_def
      defaultIntegerState_def mkIntegerState_def getWorstState_def)

text \<open>
  C4 (amended): \<open>indicateOptimisticFixpoint\<close> reaches the fixpoint by raising \<open>Known\<close> to
  the current \<open>Assumed\<close> (afterwards \<open>Known\<close> is the prior \<open>Assumed\<close>, and \<open>Assumed\<close> is
  unchanged), and returns UNCHANGED; \<open>indicatePessimisticFixpoint\<close> reaches it by lowering
  \<open>Assumed\<close> to the current \<open>Known\<close> (afterwards \<open>Assumed\<close> is the prior \<open>Known\<close>, and
  \<open>Known\<close> is unchanged), and returns CHANGED.
\<close>

theorem C4_fixpoint_direction_amended:
  "indicateOptimisticFixpoint s = (UNCHANGED, \<lparr>Known = Assumed s, Assumed = Assumed s\<rparr>) \<and>
   isAtFixpoint (snd (indicateOptimisticFixpoint s)) \<and>
   indicatePessimisticFixpoint s = (CHANGED, \<lparr>Known = Known s, Assumed = Known s\<rparr>) \<and>
   isAtFixpoint (snd (indicatePessimisticFixpoint s))"
  by (simp add: indicateOptimisticFixpoint_def indicatePessimisticFixpoint_def
      isAtFixpoint_def)

text \<open>
  C5 (as the claim states it, refuted): a default-constructed state has \<open>Known = 0\<close>, so
  \<open>indicatePessimisticFixpoint\<close> sets \<open>Assumed\<close> to 0, the worst state, and
  \<open>isValidState\<close> returns false.
\<close>

theorem C5_pessimistic_valid_counterexample:
  "\<not> isValidState (snd (indicatePessimisticFixpoint defaultIntegerState))"
  by (simp add: isValidState_def indicatePessimisticFixpoint_def defaultIntegerState_def
      mkIntegerState_def getWorstState_def)

text \<open>
  C5 (amended): \<open>indicatePessimisticFixpoint\<close> leaves the state at a fixpoint and leaves
  \<open>Known\<close> unchanged; the resulting state is valid exactly when \<open>Known\<close> is not 0.
\<close>

theorem C5_pessimistic_amended:
  "isAtFixpoint (snd (indicatePessimisticFixpoint s)) \<and>
   Known (snd (indicatePessimisticFixpoint s)) = Known s \<and>
   isValidState (snd (indicatePessimisticFixpoint s)) = (Known s \<noteq> 0)"
  by (simp add: isAtFixpoint_def isValidState_def indicatePessimisticFixpoint_def
      getWorstState_def)

section \<open>Freshly constructed states\<close>

text \<open>
  C9: a default-constructed IntegerState and a freshly constructed BooleanState are valid
  and not at a fixpoint, and so is an IntegerState constructed with any BestState other
  than 0.
\<close>

theorem C9_fresh_state:
  "isValidState defaultIntegerState \<and> \<not> isAtFixpoint defaultIntegerState \<and>
   Known defaultIntegerState = 0 \<and> Assumed defaultIntegerState = NOT 0 \<and>
   isValidState BooleanState \<and> \<not> isAtFixpoint BooleanState \<and>
   Known BooleanState = 0 \<and> Assumed BooleanState = 1 \<and>
   (BestState \<noteq> 0 \<longrightarrow>
      isValidState (mkIntegerState BestState) \<and> \<not> isAtFixpoint (mkIntegerState BestState))"
  by (simp add: isValidState_def isAtFixpoint_def defaultIntegerState_def BooleanState_def
      mkIntegerState_def getWorstState_def)

theorem C9_fresh_state_witness:
  "(4096 :: base_t) \<noteq> 0 \<and> isValidState (mkIntegerState 4096) \<and>
   \<not> isAtFixpoint (mkIntegerState 4096)"
proof -
  have h: "(4096 :: base_t) \<noteq> 0" by simp
  show ?thesis using h C9_fresh_state [of 4096] by blast
qed

section \<open>Idempotence of the bit operations\<close>

text \<open>
  C10: \<open>addKnownBits\<close>, \<open>removeAssumedBits\<close> and \<open>intersectAssumedBits\<close>, called twice in a
  row with the same mask, leave the same state as called once.
\<close>

theorem C10_idempotent:
  "addKnownBits B (addKnownBits B s) = addKnownBits B s \<and>
   removeAssumedBits B (removeAssumedBits B s) = removeAssumedBits B s \<and>
   intersectAssumedBits B (intersectAssumedBits B s) = intersectAssumedBits B s"
  by (simp add: addKnownBits_def removeAssumedBits_def intersectAssumedBits_def
      and_or_idem or.assoc)

section \<open>Querying and registering attributes\<close>

lemma SetVector_insert_member: "X \<in> set (SetVector_insert X V)"
  by (simp add: SetVector_insert_def)

lemma QueryMap_insert_lookup:
  "QueryMap_lookup (QueryMap_insert AA QueryingAA A) AA =
     SetVector_insert QueryingAA (QueryMap_lookup A AA)"
  by (simp add: QueryMap_insert_def QueryMap_lookup_def)

lemma QueryMap_insert_other:
  "B \<noteq> AA \<Longrightarrow> QueryMap (QueryMap_insert AA QueryingAA A) B = QueryMap A B"
  by (simp add: QueryMap_insert_def)

lemma QueryMap_insert_fields:
  "Objects (QueryMap_insert AA QueryingAA A) = Objects A"
  "AllAbstractAttributes (QueryMap_insert AA QueryingAA A) = AllAbstractAttributes A"
  "AAMap (QueryMap_insert AA QueryingAA A) = AAMap A"
  by (simp_all add: QueryMap_insert_def)

lemma AAMap_at_QueryMap_insert:
  "AAMap_at (QueryMap_insert AA QueryingAA A) = AAMap_at A"
  by (simp add: fun_eq_iff AAMap_at_def QueryMap_insert_def)

text \<open>A position can be hashed when it is not the invalid one and has an anchor.\<close>

lemma getHashValue_Inr:
  "(\<exists>h. getHashValue IRP = Inr h) = (KindOrArgNo IRP \<noteq> IRP_INVALID \<and> AnchorVal IRP \<noteq> None)"
  by (auto simp: getHashValue_def getAnchorValue_def split: option.splits)

lemma dependence_step:
  "A' = (if isValid (getState (Objects A2 AA)) then QueryMap_insert AA QueryingAA A2 else A2)
   \<Longrightarrow>
   (isValid (getState (Objects A' AA)) \<longrightarrow>
      QueryingAA \<in> set (QueryMap_lookup A' AA) \<and>
      set (QueryMap_lookup A2 AA) \<subseteq> set (QueryMap_lookup A' AA) \<and>
      QueryMap_lookup A' AA =
        (if QueryingAA \<in> set (QueryMap_lookup A2 AA) then QueryMap_lookup A2 AA
         else QueryMap_lookup A2 AA @ [QueryingAA]) \<and>
      (\<forall>B. B \<noteq> AA \<longrightarrow> QueryMap A' B = QueryMap A2 B)) \<and>
   (\<not> isValid (getState (Objects A' AA)) \<longrightarrow> QueryMap A' = QueryMap A2) \<and>
   Objects A' = Objects A2 \<and> AAMap A' = AAMap A2 \<and>
   AllAbstractAttributes A' = AllAbstractAttributes A2"
  by (auto simp: QueryMap_insert_lookup QueryMap_insert_other QueryMap_insert_fields
      SetVector_insert_def)

lemma QueryMap_lookup_cong:
  "QueryMap A2 = QueryMap A \<Longrightarrow> QueryMap_lookup A2 AA = QueryMap_lookup A AA"
  by (simp add: QueryMap_lookup_def)

lemma AAMap_at_cong: "AAMap A2 = AAMap A \<Longrightarrow> AAMap_at A2 = AAMap_at A"
  by (simp add: AAMap_at_def fun_eq_iff)

text \<open>
  C6: a call of \<open>getAAFor\<close> returns an attribute unless hashing a position fails (the
  position asked for, when the lookup map is not empty, or the position of the new
  attribute, when none is found and one is registered). For every call that returns: if
  the state of the returned attribute is valid, the querying attribute is in the
  dependency set of the returned attribute after the call, the earlier dependents of the
  returned attribute are kept in their order, and the dependency sets of all other
  attributes are unchanged; if the state is invalid, the query map is as it was before
  the call. This holds when the attribute was found in the lookup map (the returned
  attribute is the one found, and no object is created or registered) and when it is
  created by the call (the returned attribute is the new object of the factory,
  registered by the call).
\<close>

theorem C6_getAAFor_dependency:
  "(case getAAFor isValid ID createForPosition QueryingAA IRP A of
      Inl e \<Rightarrow>
        \<not> ((AAMap A = Map.empty \<or> (\<exists>h. getHashValue IRP = Inr h)) \<and>
           (AAMap_at A IRP ID \<noteq> None \<or>
            (\<exists>h. getHashValue (getIRPosition (createForPosition IRP A)) = Inr h)))
    | Inr (AA, A') \<Rightarrow>
        (AAMap A = Map.empty \<or> (\<exists>h. getHashValue IRP = Inr h)) \<and>
        (AAMap_at A IRP ID \<noteq> None \<or>
         (\<exists>h. getHashValue (getIRPosition (createForPosition IRP A)) = Inr h)) \<and>
        (isValid (getState (Objects A' AA)) \<longrightarrow>
           QueryingAA \<in> set (QueryMap_lookup A' AA) \<and>
           set (QueryMap_lookup A AA) \<subseteq> set (QueryMap_lookup A' AA) \<and>
           QueryMap_lookup A' AA =
             (if QueryingAA \<in> set (QueryMap_lookup A AA) then QueryMap_lookup A AA
              else QueryMap_lookup A AA @ [QueryingAA]) \<and>
           (\<forall>B. B \<noteq> AA \<longrightarrow> QueryMap A' B = QueryMap A B)) \<and>
        (\<not> isValid (getState (Objects A' AA)) \<longrightarrow> QueryMap A' = QueryMap A) \<and>
        (case AAMap_at A IRP ID of
           Some Found \<Rightarrow>
             AA = Found \<and> Objects A' = Objects A \<and> AAMap A' = AAMap A \<and>
             AllAbstractAttributes A' = AllAbstractAttributes A
         | None \<Rightarrow>
             AA = NextObject A \<and> Objects A' AA = createForPosition IRP A \<and>
             AAMap_at A' (getIRPosition (createForPosition IRP A)) ID = Some AA \<and>
             AllAbstractAttributes A' = AllAbstractAttributes A @ [AA]))"
proof (cases "AAMap_lookup A IRP")
  case (Inl e)
  then show ?thesis
    by (auto simp: getAAFor_def AAMap_lookup_def split: if_splits sum.splits)
next
  case (Inr M)
  then have M: "M = AAMap_at A IRP"
    and ok: "AAMap A = Map.empty \<or> (\<exists>h. getHashValue IRP = Inr h)"
    by (auto simp: AAMap_lookup_def AAMap_at_def split: if_splits sum.splits)
  show ?thesis
  proof (cases "AAMap_at A IRP ID")
    case (Some Found)
    define A' where "A' =
      (if isValid (getState (Objects A Found)) then QueryMap_insert Found QueryingAA A
       else A)"
    have run: "getAAFor isValid ID createForPosition QueryingAA IRP A = Inr (Found, A')"
      using Inr M Some by (simp add: getAAFor_def A'_def)
    show ?thesis
      using ok Some dependence_step [where isValid = isValid, OF A'_def] by (auto simp: run)
  next
    case None
    show ?thesis
    proof (cases "getHashValue (getIRPosition (createForPosition IRP A))")
      case (Inl e)
      with None Inr M show ?thesis
        by (simp add: getAAFor_def newObject_def registerAA_def Let_def)
    next
      case h: (Inr h)
      define A2 where "A2 =
        A\<lparr>Objects := (Objects A)(NextObject A := createForPosition IRP A),
          NextObject := Suc (NextObject A),
          AAMap := (AAMap A)(getIRPosition (createForPosition IRP A) \<mapsto>
                     (AAMap_at A (getIRPosition (createForPosition IRP A)))
                       (ID \<mapsto> NextObject A)),
          AllAbstractAttributes := AllAbstractAttributes A @ [NextObject A]\<rparr>"
      define A' where "A' =
        (if isValid (getState (Objects A2 (NextObject A)))
         then QueryMap_insert (NextObject A) QueryingAA A2 else A2)"
      have run: "getAAFor isValid ID createForPosition QueryingAA IRP A =
          Inr (NextObject A, A')"
        using Inr M None h
        by (simp add: getAAFor_def newObject_def registerAA_def Let_def A2_def A'_def
            AAMap_at_def)
      have q: "QueryMap A2 = QueryMap A" by (simp add: A2_def)
      have o: "Objects A2 (NextObject A) = createForPosition IRP A" by (simp add: A2_def)
      have m: "AAMap_at A2 (getIRPosition (createForPosition IRP A)) ID = Some (NextObject A)"
        by (simp add: A2_def AAMap_at_def)
      have l: "AllAbstractAttributes A2 = AllAbstractAttributes A @ [NextObject A]"
        by (simp add: A2_def)
      have r: "Objects A' = Objects A2" "AAMap A' = AAMap A2"
        "AllAbstractAttributes A' = AllAbstractAttributes A2"
        using dependence_step [where isValid = isValid, OF A'_def] by simp_all
      show ?thesis
        using ok None h q o m l r dependence_step [where isValid = isValid, OF A'_def]
          QueryMap_lookup_cong [OF q, of "NextObject A"] AAMap_at_cong [OF r(2)]
        by (auto simp: run)
    qed
  qed
qed

theorem C6_getAAFor_dependency_witness:
  "(case getAAFor isValidState 7 createBoolean 5 (IRPosition_function (Fn 1))
           freshAttributor of
      Inl e \<Rightarrow> False
    | Inr (AA, A') \<Rightarrow>
        AA = 0 \<and> isValidState (getState (Objects A' AA)) \<and> QueryMap_lookup A' AA = [5]) \<and>
   (case getAAFor isValidState 7 createBoolean 5 (IRPosition_function (Fn 1))
           registeredAttributor of
      Inl e \<Rightarrow> False
    | Inr (AA, A') \<Rightarrow>
        AA = 0 \<and> isValidState (getState (Objects A' AA)) \<and>
        QueryMap_lookup A' AA = [1, 5] \<and> QueryMap_lookup A' 1 = [0]) \<and>
   (case getAAFor isValidState 7 createBoolean 1 (IRPosition_function (Fn 1))
           registeredAttributor of
      Inl e \<Rightarrow> False
    | Inr (AA, A') \<Rightarrow>
        AA = 0 \<and> isValidState (getState (Objects A' AA)) \<and>
        QueryMap_lookup A' AA = [1] \<and> QueryMap_lookup A' 1 = [0]) \<and>
   (case getAAFor isValidState 7 createBoolean 5 (IRPosition_function (Fn 1))
           pessimisticAttributor of
      Inl e \<Rightarrow> False
    | Inr (AA, A') \<Rightarrow>
        AA = 0 \<and> \<not> isValidState (getState (Objects A' AA)) \<and>
        QueryMap A' = QueryMap pessimisticAttributor) \<and>
   getAAFor isValidState 7 createBoolean 5 IRPosition_default registeredAttributor
     = Inl AssertionFailure \<and>
   getAAFor isValidState 7 createBoolean 5 IRPosition_default freshAttributor
     = Inl AssertionFailure"
  using
    C6_getAAFor_dependency [where isValid = isValidState and ID = 7 and createForPosition = createBoolean
      and QueryingAA = 5 and IRP = "IRPosition_function (Fn 1)" and A = freshAttributor]
    C6_getAAFor_dependency [where isValid = isValidState and ID = 7 and createForPosition = createBoolean
      and QueryingAA = 5 and IRP = "IRPosition_function (Fn 1)" and A = registeredAttributor]
    C6_getAAFor_dependency [where isValid = isValidState and ID = 7 and createForPosition = createBoolean
      and QueryingAA = 1 and IRP = "IRPosition_function (Fn 1)" and A = registeredAttributor]
    C6_getAAFor_dependency [where isValid = isValidState and ID = 7 and createForPosition = createBoolean
      and QueryingAA = 5 and IRP = "IRPosition_function (Fn 1)" and A = pessimisticAttributor]
    C6_getAAFor_dependency [where isValid = isValidState and ID = 7 and createForPosition = createBoolean
      and QueryingAA = 5 and IRP = IRPosition_default and A = registeredAttributor]
    C6_getAAFor_dependency [where isValid = isValidState and ID = 7 and createForPosition = createBoolean
      and QueryingAA = 5 and IRP = IRPosition_default and A = freshAttributor]
  by (simp add: getAAFor_def AAMap_lookup_def AAMap_at_def getHashValue_def
      getAnchorValue_def newObject_def registerAA_def Let_def
      QueryMap_insert_def QueryMap_lookup_def SetVector_insert_def freshAttributor_def
      registeredAttributor_def pessimisticAttributor_def createBoolean_def isValidState_def
      BooleanState_def mkIntegerState_def getWorstState_def indicatePessimisticFixpoint_def
      IRPosition_function_def IRPosition_returned_def IRPosition_anchored_def
      IRPosition_default_def Kind_defs)

text \<open>
  C8 (as the claim states it, refuted): the attribute objects at addresses 0 and 1 have
  the same position, the function position of function 1, and the same class (ID 7).
  Registering the first and then the second returns normally both times; after the
  second call the lookup map holds the second attribute for the pair, and both are in
  \<open>AllAbstractAttributes\<close>.
\<close>

theorem C8_registerAA_counterexample:
  "getIRPosition (Objects twoObjects 0) = getIRPosition (Objects twoObjects 1) \<and>
   \<not> isl (registerAA 7 0 twoObjects) \<and>
   AAMap_at (projr (registerAA 7 0 twoObjects)) (IRPosition_function (Fn 1)) 7 = Some 0 \<and>
   \<not> isl (registerAA 7 1 (projr (registerAA 7 0 twoObjects))) \<and>
   registerAA 7 1 (projr (registerAA 7 0 twoObjects)) \<noteq> Inl AssertionFailure \<and>
   AAMap_at (projr (registerAA 7 1 (projr (registerAA 7 0 twoObjects))))
     (IRPosition_function (Fn 1)) 7 = Some 1 \<and>
   AllAbstractAttributes (projr (registerAA 7 1 (projr (registerAA 7 0 twoObjects))))
     = [0, 1]"
  by (simp add: registerAA_def AAMap_at_def twoObjects_def Let_def getHashValue_def
      getAnchorValue_def IRPosition_function_def IRPosition_anchored_def Kind_defs)

text \<open>
  C8 (amended): \<open>registerAA\<close> makes no check for an attribute registered already at the
  same position and kind. A call fails exactly when the position of the attribute cannot
  be hashed (it is the invalid position, or has no anchor), with the failure of
  \<open>getAnchorValue\<close>, whatever is registered. Every other call returns normally: the
  entry of the lookup map for the position and kind of the attribute is set to the
  attribute (replacing an earlier one), all other entries are as before, the attribute
  is appended to \<open>AllAbstractAttributes\<close> (where an earlier one stays), and the query
  map and the objects are unchanged.
\<close>

theorem C8_registerAA_amended:
  "isl (registerAA ID AA A) =
     (KindOrArgNo (getIRPosition (Objects A AA)) = IRP_INVALID \<or>
      AnchorVal (getIRPosition (Objects A AA)) = None) \<and>
   (case registerAA ID AA A of
      Inl e \<Rightarrow> getHashValue (getIRPosition (Objects A AA)) = Inl e
    | Inr A' \<Rightarrow>
        (\<exists>h. getHashValue (getIRPosition (Objects A AA)) = Inr h) \<and>
        AAMap_at A' (getIRPosition (Objects A AA)) ID = Some AA \<and>
        (\<forall>IRP K. (IRP, K) \<noteq> (getIRPosition (Objects A AA), ID) \<longrightarrow>
           AAMap_at A' IRP K = AAMap_at A IRP K) \<and>
        AllAbstractAttributes A' = AllAbstractAttributes A @ [AA] \<and>
        QueryMap A' = QueryMap A \<and> Objects A' = Objects A)"
  by (auto simp: registerAA_def Let_def AAMap_at_def getHashValue_def getAnchorValue_def
      split: sum.splits option.splits)


theorem C8_registerAA_amended_witness:
  "KindOrArgNo (getIRPosition (Objects freshAttributor 0)) = IRP_INVALID \<and>
   registerAA 7 0 freshAttributor = Inl AssertionFailure \<and>
   KindOrArgNo (getIRPosition (Objects (projr (registerAA 7 0 twoObjects)) 1))
     \<noteq> IRP_INVALID \<and>
   AnchorVal (getIRPosition (Objects (projr (registerAA 7 0 twoObjects)) 1)) \<noteq> None \<and>
   (case registerAA 7 1 (projr (registerAA 7 0 twoObjects)) of
      Inl e \<Rightarrow> False
    | Inr A' \<Rightarrow>
        AAMap_at A' (IRPosition_function (Fn 1)) 7 = Some 1 \<and>
        AllAbstractAttributes A' = [0, 1])"
  using C8_registerAA_amended [where ID = 7 and AA = 0 and A = freshAttributor]
    C8_registerAA_amended [where ID = 7 and AA = 1 and A = "projr (registerAA 7 0 twoObjects)"]
  by (simp add: registerAA_def AAMap_at_def twoObjects_def freshAttributor_def Let_def
      getHashValue_def getAnchorValue_def IRPosition_function_def IRPosition_anchored_def
      IRPosition_default_def Kind_defs)

section \<open>Subsuming positions\<close>

lemma getPositionKind_callsite_returned:
  "getPositionKind (IRPosition_callsite_returned cb) = Inr IRP_CALL_SITE_RETURNED"
  by (simp add: getPositionKind_def getAnchorValue_def IRPosition_callsite_returned_def
      IRPosition_anchored_def getArgNo_pos_def Kind_defs)

text \<open>
  C7: for a call-site-returned position whose callee is known, the iterator yields the
  position itself, then the callee's returned position, then the call-site position,
  then the callee's function position; when the callee is not known, it yields the
  position itself and the call-site position, and no position of a callee.
\<close>

theorem C7_callsite_returned_order:
  "SubsumingPositionIterator (IRPosition_callsite_returned (CB i F (Some Callee) ops)) =
     Inr [IRPosition_callsite_returned (CB i F (Some Callee) ops),
          IRPosition_returned Callee,
          IRPosition_callsite_function (CB i F (Some Callee) ops),
          IRPosition_function Callee] \<and>
   SubsumingPositionIterator (IRPosition_callsite_returned (CB i F None ops)) =
     Inr [IRPosition_callsite_returned (CB i F None ops),
          IRPosition_callsite_function (CB i F None ops)]"
  by (simp add: SubsumingPositionIterator_def getPositionKind_callsite_returned)
     (simp add: IRPosition_callsite_returned_def IRPosition_anchored_def Kind_defs)

end
